theory Spec2Isabelle
  imports Main
begin

section \<open>Formatting helpers of the Go standard library\<close>

text \<open>
  Go strings are byte sequences; \<^typ>\<open>string\<close> is a list of 8-bit characters, so a Go
  string is modelled by a \<^typ>\<open>string\<close> and a Go \<^verbatim>\<open>byte\<close> by a \<^typ>\<open>char\<close>.
\<close>

text \<open>\<^verbatim>\<open>%d\<close> of a non-negative integer: its decimal digits, most significant first.\<close>

fun showNat :: "nat \<Rightarrow> string" where
  "showNat n =
     (if n < 10 then [''0123456789'' ! n]
      else showNat (n div 10) @ [''0123456789'' ! (n mod 10)])"

declare showNat.simps [simp del]

text \<open>\<^verbatim>\<open>%d\<close> of a Go \<^verbatim>\<open>int\<close>: a minus sign before the digits of a negative number.\<close>

definition showInt :: "int \<Rightarrow> string" where
  "showInt i = (if i < 0 then CHR ''-'' # showNat (nat (- i)) else showNat (nat i))"

text \<open>
  \<^verbatim>\<open>%c\<close> of a byte: the UTF-8 encoding of the code point with that number, one byte
  below 128 and two bytes from 128 to 255.
\<close>

definition fmtC :: "char \<Rightarrow> string" where
  "fmtC c =
     (let n = (of_char c :: nat) in
      if n < 128 then [c]
      else [char_of (192 + n div 64), char_of (128 + n mod 64)])"

text \<open>\<^verbatim>\<open>strings.Join(elems, sep)\<close>.\<close>

fun Join :: "string list \<Rightarrow> string \<Rightarrow> string" where
  "Join [] sep = []"
| "Join [e] sep = e"
| "Join (e # es) sep = e @ sep @ Join es sep"

text \<open>
  Three functions of the standard library are modelled in part only; what is not
  modelled is a parameter of the model, the record \<open>golib\<close>:
  \<^item> \<open>sprintfVerbs\<close>: what \<^verbatim>\<open>fmt.Sprintf(format)\<close> returns for a format that contains
    \<^verbatim>\<open>%\<close> when there is no further argument;
  \<^item> \<open>toUpperString\<close>: \<^verbatim>\<open>strings.ToUpper\<close> on a string;
  \<^item> \<open>toUpperFirst\<close>: \<^verbatim>\<open>strings.ToUpper(string(h))[0]\<close> for a byte \<open>h\<close> from 128,
    the first byte of the upper-cased UTF-8 encoding of the code point \<open>h\<close>.
\<close>

record golib =
  sprintfVerbs :: "string \<Rightarrow> string"
  toUpperString :: "string \<Rightarrow> string"
  toUpperFirst :: "char \<Rightarrow> char"

text \<open>
  \<^verbatim>\<open>fmt.Sprintf(format)\<close> with no further argument returns a format without
  \<^verbatim>\<open>%\<close> as it is.
\<close>

definition Sprintf0 :: "golib \<Rightarrow> string \<Rightarrow> string" where
  "Sprintf0 lib format =
     (if CHR ''%'' \<in> set format then sprintfVerbs lib format else format)"

text \<open>
  \<^verbatim>\<open>strings.ToUpper(string(h))[0]\<close> for a byte \<open>h\<close>: below 128 \<^verbatim>\<open>string(h)\<close> is
  the one byte \<open>h\<close>, which is upper-cased when it is an ASCII lower-case letter.
\<close>

definition upperFirst :: "golib \<Rightarrow> char \<Rightarrow> char" where
  "upperFirst lib h =
     (let n = (of_char h :: nat) in
      if n < 128 then (if 97 \<le> n \<and> n \<le> 122 then char_of (n - 32) else h)
      else toUpperFirst lib h)"

section \<open>Locations and parse errors\<close>

record Loc =
  Filename :: string
  Line :: int
  Col :: int

record parseError =
  expected :: "string list"
  message :: string
  loc :: Loc

definition mkErrorExpectations :: "Loc \<Rightarrow> string list \<Rightarrow> parseError" where
  "mkErrorExpectations l exps = \<lparr>expected = exps, message = [], loc = l\<rparr>"

text \<open>The caller passes the string that \<^verbatim>\<open>fmt.Sprintf(expect, args...)\<close> returns.\<close>

definition mkErrorExpect :: "Loc \<Rightarrow> string \<Rightarrow> parseError" where
  "mkErrorExpect l expect = mkErrorExpectations l [expect]"

text \<open>The caller passes the string that \<^verbatim>\<open>fmt.Sprintf(msg, args...)\<close> returns.\<close>

definition mkErrorMessage :: "Loc \<Rightarrow> string \<Rightarrow> parseError" where
  "mkErrorMessage l msg = \<lparr>expected = [], message = msg, loc = l\<rparr>"

text \<open>\<^verbatim>\<open>(*parseError).Error\<close>, with the branches in the order of the source.\<close>

definition parseError_Error :: "parseError \<Rightarrow> string" where
  "parseError_Error e =
     (let prefix = Filename (loc e) @ '' line '' @ showInt (Line (loc e))
                     @ '' col '' @ showInt (Col (loc e)) in
      if length (expected e) = 1 then
        (if message e = [] then prefix @ '': expected '' @ expected e ! 0
         else prefix @ '': '' @ message e @ '', expected '' @ expected e ! 0)
      else if length (expected e) > 1 then
        (if message e = [] then prefix @ '': expected one of '' @ Join (expected e) '', ''
         else prefix @ '': '' @ message e @ '', expected one of ''
                @ Join (expected e) '', '')
      else prefix @ '': '' @ message e)"

section \<open>Values and streams\<close>

text \<open>
  A Go \<^verbatim>\<open>interface{}\<close> value. The library itself stores \<^verbatim>\<open>nil\<close>, bytes, strings
  and \<^verbatim>\<open>[]interface{}\<close> slices; \<open>VUser\<close> stands for any other value that an action
  returns.
\<close>

datatype 'u iface =
    VNil
  | VByte char
  | VStr string
  | VList "'u iface list"
  | VUser 'u

text \<open>
  \<^verbatim>\<open>stringPS\<close>. The field \<^verbatim>\<open>tail\<close> caches the stream that \<^verbatim>\<open>Tail\<close> built; that
  stream is a function of the other fields, so the cache is left out and \<^verbatim>\<open>Tail\<close>
  builds it at every call. \<^verbatim>\<open>pos\<close> is a \<^verbatim>\<open>uint\<close>: it only grows by one, in
  \<^verbatim>\<open>Tail\<close>, after the read of \<^verbatim>\<open>s.str[s.pos]\<close> succeeded, so it never exceeds the
  length of a string and never wraps.
\<close>

record 'u stringPS =
  str :: string
  pos :: nat
  filename :: string
  line :: int
  col :: int
  val :: "'u iface"

text \<open>What stops a Go program: a run-time panic, or an explicit \<^verbatim>\<open>panic(msg)\<close>.\<close>

datatype panic =
    NilDereference
  | IndexOutOfRange
  | TypeAssertion
  | PanicMsg string

definition stringPS_Head :: "'u stringPS \<Rightarrow> char \<times> bool" where
  "stringPS_Head s =
     (if pos s \<ge> length (str s) then (CHR 0x00, True) else (str s ! pos s, False))"

text \<open>
  \<^verbatim>\<open>Tail\<close> reads \<^verbatim>\<open>s.str[s.pos]\<close>: at the end of the string that read panics
  (\<open>None\<close>). The new stream copies \<^verbatim>\<open>line\<close> and \<^verbatim>\<open>col\<close>, has no value, and after a
  newline has the next line and column 0.
\<close>

definition stringPS_Tail :: "'u stringPS \<Rightarrow> 'u stringPS option" where
  "stringPS_Tail s =
     (if pos s < length (str s) then
        (let t = \<lparr>str = str s, pos = pos s + 1, filename = filename s,
                  line = line s, col = col s, val = VNil\<rparr> in
         if str s ! pos s = CHR 0x0A then Some (t\<lparr>line := line s + 1, col := 0\<rparr>)
         else Some t)
      else None)"

definition stringPS_Value :: "'u stringPS \<Rightarrow> 'u iface" where
  "stringPS_Value s = val s"

definition stringPS_SetValue :: "'u stringPS \<Rightarrow> 'u iface \<Rightarrow> 'u stringPS" where
  "stringPS_SetValue s v = s\<lparr>val := v\<rparr>"

definition stringPS_Loc :: "'u stringPS \<Rightarrow> Loc" where
  "stringPS_Loc s = \<lparr>Filename = filename s, Line = line s, Col = col s\<rparr>"

section \<open>Parsers\<close>

text \<open>
  What a call of \<^verbatim>\<open>Parse\<close> does: it returns a stream and no error (\<open>Ok\<close>), returns
  no stream and an error (\<open>Err\<close>), panics, or has not returned when the fuel of the
  model is used up.
\<close>

datatype 'u result =
    Ok "'u stringPS"
  | Err parseError
  | Panic panic
  | OutOfFuel

text \<open>
  An \<^verbatim>\<open>Action\<close> returns a value and no error, or an error (modelled by the text of
  its \<^verbatim>\<open>Error()\<close>), or panics.
\<close>

datatype 'u actionResult =
    ActOk "'u iface"
  | ActErr string
  | ActPanic panic

type_synonym 'u Action = "'u iface \<Rightarrow> 'u actionResult"

text \<open>The parser structs of the library, with their fields in the order of the source.\<close>

datatype 'u Parser =
    pLiteral string
  | pLiteralIC string string
  | pAlt "'u Parser list"
  | pSeq "'u Parser list"
  | pSeqAt "'u Parser list" int
  | pOptional "'u Parser"
  | pAnyChar
  | pOneOf string
  | pNoneOf string
  | pRange char char
  | pMany "'u Parser" int bool
  | pSepBy "'u Parser" "'u Parser" int
  | pEndBy "'u Parser" "'u Parser" int
  | pManyTill "'u Parser" "'u Parser"
  | pWithAction "'u Parser" "'u Action"
  | pSymbol string

type_synonym 'u symbolTable = "string \<rightharpoonup> 'u Parser"

subsection \<open>Primitive parsers\<close>

text \<open>
  \<^verbatim>\<open>pLiteral.Parse\<close>: the loop over \<^verbatim>\<open>i\<close>, with the rest of the target from index
  \<^verbatim>\<open>i\<close> as its argument. The error is located at the current stream.
\<close>

fun pLiteral_loop :: "string \<Rightarrow> string \<Rightarrow> 'u stringPS \<Rightarrow> 'u result" where
  "pLiteral_loop target [] ps = Ok (stringPS_SetValue ps (VStr target))"
| "pLiteral_loop target (c # rest) ps =
     (case stringPS_Head ps of
        (h, eof) \<Rightarrow>
          if eof \<or> c \<noteq> h then
            Err (mkErrorExpect (stringPS_Loc ps)
                   (''literal '' @ [CHR 0x27] @ target @ [CHR 0x27]))
          else (case stringPS_Tail ps of
                  None \<Rightarrow> Panic IndexOutOfRange
                | Some t \<Rightarrow> pLiteral_loop target rest t))"

definition pLiteral_Parse :: "string \<Rightarrow> 'u stringPS \<Rightarrow> 'u result" where
  "pLiteral_Parse target ps = pLiteral_loop target target ps"

text \<open>
  \<^verbatim>\<open>pLiteralIC.Parse\<close>: the loop runs over the indices of \<^verbatim>\<open>target\<close> and reads
  \<^verbatim>\<open>upcased[i]\<close>, which panics when \<^verbatim>\<open>upcased\<close> is shorter.
\<close>

fun pLiteralIC_loop ::
  "golib \<Rightarrow> string \<Rightarrow> string \<Rightarrow> nat \<Rightarrow> string \<Rightarrow> 'u stringPS \<Rightarrow> 'u result" where
  "pLiteralIC_loop lib target upcased i [] ps = Ok (stringPS_SetValue ps (VStr target))"
| "pLiteralIC_loop lib target upcased i (c # rest) ps =
     (case stringPS_Head ps of
        (h, eof) \<Rightarrow>
          if eof then
            Err (mkErrorExpect (stringPS_Loc ps)
                   (''literal '' @ [CHR 0x27] @ target @ [CHR 0x27]))
          else if i \<ge> length upcased then Panic IndexOutOfRange
          else if upcased ! i \<noteq> upperFirst lib h then
            Err (mkErrorExpect (stringPS_Loc ps)
                   (''literal '' @ [CHR 0x27] @ target @ [CHR 0x27]))
          else (case stringPS_Tail ps of
                  None \<Rightarrow> Panic IndexOutOfRange
                | Some t \<Rightarrow> pLiteralIC_loop lib target upcased (i + 1) rest t))"

definition pLiteralIC_Parse ::
  "golib \<Rightarrow> string \<Rightarrow> string \<Rightarrow> 'u stringPS \<Rightarrow> 'u result" where
  "pLiteralIC_Parse lib target upcased ps = pLiteralIC_loop lib target upcased 0 target ps"

definition pAnyChar_Parse :: "'u stringPS \<Rightarrow> 'u result" where
  "pAnyChar_Parse ps =
     (case stringPS_Head ps of
        (c, eof) \<Rightarrow>
          if eof then Err (mkErrorMessage (stringPS_Loc ps) ''unexpected EOF'')
          else (case stringPS_Tail ps of
                  None \<Rightarrow> Panic IndexOutOfRange
                | Some t \<Rightarrow> Ok (stringPS_SetValue t (VByte c))))"

definition pOneOf_Parse :: "string \<Rightarrow> 'u stringPS \<Rightarrow> 'u result" where
  "pOneOf_Parse options ps =
     (case stringPS_Head ps of
        (c, eof) \<Rightarrow>
          if eof then
            Err (mkErrorMessage (stringPS_Loc ps)
                   (''unexpected EOF, expected one of '' @ [CHR 0x27] @ options @ [CHR 0x27]))
          else if c \<in> set options then
            (case stringPS_Tail ps of
               None \<Rightarrow> Panic IndexOutOfRange
             | Some t \<Rightarrow> Ok (stringPS_SetValue t (VByte c)))
          else Err (mkErrorMessage (stringPS_Loc ps) (''expected one of: '' @ options)))"

definition pNoneOf_Parse :: "string \<Rightarrow> 'u stringPS \<Rightarrow> 'u result" where
  "pNoneOf_Parse blacklist ps =
     (case stringPS_Head ps of
        (c, eof) \<Rightarrow>
          if eof then Err (mkErrorMessage (stringPS_Loc ps) ''unexpected EOF'')
          else if c \<in> set blacklist then
            Err (mkErrorMessage (stringPS_Loc ps) (''unexpected '' @ fmtC c))
          else (case stringPS_Tail ps of
                  None \<Rightarrow> Panic IndexOutOfRange
                | Some t \<Rightarrow> Ok (stringPS_SetValue t (VByte c))))"

definition pRange_Parse :: "char \<Rightarrow> char \<Rightarrow> 'u stringPS \<Rightarrow> 'u result" where
  "pRange_Parse lo hi ps =
     (case stringPS_Head ps of
        (c, eof) \<Rightarrow>
          if \<not> eof \<and> (of_char lo :: nat) \<le> of_char c \<and> (of_char c :: nat) \<le> of_char hi then
            (case stringPS_Tail ps of
               None \<Rightarrow> Panic IndexOutOfRange
             | Some t \<Rightarrow> Ok (stringPS_SetValue t (VByte c)))
          else Err (mkErrorExpect (stringPS_Loc ps)
                      (''range('' @ fmtC lo @ ''..'' @ fmtC hi @ '')'')))"

subsection \<open>Combinators\<close>

text \<open>
  A combinator calls \<^verbatim>\<open>Parse\<close> of its children. In the definitions below the
  argument \<open>rec\<close> is that call (\<open>rec q s\<close> is \<^verbatim>\<open>q.Parse(s, g)\<close>), and \<open>inner\<close>,
  \<open>sep\<close>, \<open>terminator\<close> are the calls of one child. A child that panics or does not
  return stops the combinator in the same way.
\<close>

text \<open>
  \<^verbatim>\<open>pAlt.Parse\<close>: the first loop returns the first stream that is not nil and
  collects the errors; the second loop appends the expectations of the errors in order.
\<close>

fun pAlt_loop ::
  "('u Parser \<Rightarrow> 'u stringPS \<Rightarrow> 'u result) \<Rightarrow> 'u Parser list \<Rightarrow> 'u stringPS
     \<Rightarrow> parseError list \<Rightarrow> 'u result" where
  "pAlt_loop rec [] ps errs =
     Err (mkErrorExpectations (stringPS_Loc ps) (concat (map expected errs)))"
| "pAlt_loop rec (inner # rest) ps errs =
     (case rec inner ps of
        Ok ret \<Rightarrow> Ok ret
      | Err err \<Rightarrow> pAlt_loop rec rest ps (errs @ [err])
      | Panic x \<Rightarrow> Panic x
      | OutOfFuel \<Rightarrow> OutOfFuel)"

definition pAlt_Parse ::
  "('u Parser \<Rightarrow> 'u stringPS \<Rightarrow> 'u result) \<Rightarrow> 'u Parser list \<Rightarrow> 'u stringPS \<Rightarrow> 'u result" where
  "pAlt_Parse rec parsers ps = pAlt_loop rec parsers ps []"

text \<open>\<^verbatim>\<open>pSeq.Parse\<close>: \<open>out\<close> holds the values stored so far, \<^verbatim>\<open>out[0..i-1]\<close>.\<close>

fun pSeq_loop ::
  "('u Parser \<Rightarrow> 'u stringPS \<Rightarrow> 'u result) \<Rightarrow> 'u Parser list \<Rightarrow> 'u stringPS
     \<Rightarrow> 'u iface list \<Rightarrow> 'u result" where
  "pSeq_loop rec [] ps out = Ok (stringPS_SetValue ps (VList out))"
| "pSeq_loop rec (inner # rest) ps out =
     (case rec inner ps of
        Err err \<Rightarrow> Err err
      | Ok ps' \<Rightarrow> pSeq_loop rec rest ps' (out @ [stringPS_Value ps'])
      | Panic x \<Rightarrow> Panic x
      | OutOfFuel \<Rightarrow> OutOfFuel)"

definition pSeq_Parse ::
  "('u Parser \<Rightarrow> 'u stringPS \<Rightarrow> 'u result) \<Rightarrow> 'u Parser list \<Rightarrow> 'u stringPS \<Rightarrow> 'u result" where
  "pSeq_Parse rec parsers ps = pSeq_loop rec parsers ps []"

text \<open>\<^verbatim>\<open>pSeqAt.Parse\<close>: \<open>i\<close> is the index of the next child, \<open>v\<close> starts as nil.\<close>

fun pSeqAt_loop ::
  "('u Parser \<Rightarrow> 'u stringPS \<Rightarrow> 'u result) \<Rightarrow> int \<Rightarrow> 'u Parser list \<Rightarrow> int
     \<Rightarrow> 'u stringPS \<Rightarrow> 'u iface \<Rightarrow> 'u result" where
  "pSeqAt_loop rec index [] i ps v = Ok (stringPS_SetValue ps v)"
| "pSeqAt_loop rec index (inner # rest) i ps v =
     (case rec inner ps of
        Err err \<Rightarrow> Err err
      | Ok ps' \<Rightarrow>
          pSeqAt_loop rec index rest (i + 1) ps' (if i = index then stringPS_Value ps' else v)
      | Panic x \<Rightarrow> Panic x
      | OutOfFuel \<Rightarrow> OutOfFuel)"

definition pSeqAt_Parse ::
  "('u Parser \<Rightarrow> 'u stringPS \<Rightarrow> 'u result) \<Rightarrow> 'u Parser list \<Rightarrow> int \<Rightarrow> 'u stringPS
     \<Rightarrow> 'u result" where
  "pSeqAt_Parse rec parsers index ps = pSeqAt_loop rec index parsers 0 ps VNil"

definition pOptional_Parse ::
  "('u stringPS \<Rightarrow> 'u result) \<Rightarrow> 'u stringPS \<Rightarrow> 'u result" where
  "pOptional_Parse inner ps =
     (case inner ps of
        Ok res \<Rightarrow> Ok res
      | Err err \<Rightarrow> Ok (stringPS_SetValue ps VNil)
      | Panic x \<Rightarrow> Panic x
      | OutOfFuel \<Rightarrow> OutOfFuel)"

text \<open>
  \<^verbatim>\<open>pMany.Parse\<close>: the loop has no bound of its own, so the model counts its rounds
  down from \<open>k\<close>. The loop ends at the first error of the inner parser; what follows the
  loop in the source is the \<open>Err\<close> branch.
\<close>

fun pMany_loop ::
  "nat \<Rightarrow> ('u stringPS \<Rightarrow> 'u result) \<Rightarrow> int \<Rightarrow> bool \<Rightarrow> 'u stringPS \<Rightarrow> 'u iface list
     \<Rightarrow> int \<Rightarrow> 'u result" where
  "pMany_loop 0 inner mn capture ps results found = OutOfFuel"
| "pMany_loop (Suc k) inner mn capture ps results found =
     (case inner ps of
        Err err \<Rightarrow>
          if found < mn then
            Err \<lparr>expected = expected err, message = ''minimum '' @ showInt mn,
                 loc = stringPS_Loc ps\<rparr>
          else if capture then Ok (stringPS_SetValue ps (VList results))
          else Ok (stringPS_SetValue ps VNil)
      | Ok ps2 \<Rightarrow>
          pMany_loop k inner mn capture ps2
            (if capture then results @ [stringPS_Value ps2] else results) (found + 1)
      | Panic x \<Rightarrow> Panic x
      | OutOfFuel \<Rightarrow> OutOfFuel)"

definition pMany_Parse ::
  "nat \<Rightarrow> ('u stringPS \<Rightarrow> 'u result) \<Rightarrow> int \<Rightarrow> bool \<Rightarrow> 'u stringPS \<Rightarrow> 'u result" where
  "pMany_Parse k inner mn capture ps = pMany_loop k inner mn capture ps [] 0"

text \<open>
  How the \<^verbatim>\<open>for\<close> statements of \<^verbatim>\<open>pSepBy.Parse\<close> and \<^verbatim>\<open>pEndBy.Parse\<close> end:
  with the stream \<^verbatim>\<open>last\<close> and the results, or stopped by a child that panics or
  does not return. Both end only when the variable \<^verbatim>\<open>ps\<close> is nil: by
  \<^verbatim>\<open>break\<close> after the inner parser returned nil, or at the condition
  \<^verbatim>\<open>ps != nil\<close> after the separator returned nil.
\<close>

datatype 'u loopEnd =
    Done "'u stringPS" "'u iface list"
  | LoopPanic panic
  | LoopOutOfFuel

text \<open>
  \<^verbatim>\<open>pSepBy.Parse\<close>, the loop: \<^verbatim>\<open>last\<close> is set to the stream before the inner
  parser runs and again to the stream it returns.
\<close>

fun pSepBy_loop ::
  "nat \<Rightarrow> ('u stringPS \<Rightarrow> 'u result) \<Rightarrow> ('u stringPS \<Rightarrow> 'u result) \<Rightarrow> 'u stringPS
     \<Rightarrow> 'u iface list \<Rightarrow> 'u loopEnd" where
  "pSepBy_loop 0 inner sep ps results = LoopOutOfFuel"
| "pSepBy_loop (Suc k) inner sep ps results =
     (case inner ps of
        Err err \<Rightarrow> Done ps results
      | Ok ps1 \<Rightarrow>
          (case sep ps1 of
             Err err \<Rightarrow> Done ps1 (results @ [stringPS_Value ps1])
           | Ok ps2 \<Rightarrow> pSepBy_loop k inner sep ps2 (results @ [stringPS_Value ps1])
           | Panic x \<Rightarrow> LoopPanic x
           | OutOfFuel \<Rightarrow> LoopOutOfFuel)
      | Panic x \<Rightarrow> LoopPanic x
      | OutOfFuel \<Rightarrow> LoopOutOfFuel)"

text \<open>
  After the loop \<^verbatim>\<open>ps\<close> is nil, so with too few results the call \<^verbatim>\<open>ps.Loc()\<close>, which
  is evaluated before the error is built, dereferences nil.
\<close>

definition pSepBy_Parse ::
  "nat \<Rightarrow> ('u stringPS \<Rightarrow> 'u result) \<Rightarrow> ('u stringPS \<Rightarrow> 'u result) \<Rightarrow> int \<Rightarrow> 'u stringPS
     \<Rightarrow> 'u result" where
  "pSepBy_Parse k inner sep mn ps =
     (case pSepBy_loop k inner sep ps [] of
        LoopPanic x \<Rightarrow> Panic x
      | LoopOutOfFuel \<Rightarrow> OutOfFuel
      | Done lst results \<Rightarrow>
          if mn > int (length results) then Panic NilDereference
          else Ok (stringPS_SetValue lst (VList results)))"

text \<open>
  \<^verbatim>\<open>pEndBy.Parse\<close>, the loop: \<^verbatim>\<open>last\<close> is set only at the start of a round, and the
  value of the inner parser is appended before the separator runs.
\<close>

fun pEndBy_loop ::
  "nat \<Rightarrow> ('u stringPS \<Rightarrow> 'u result) \<Rightarrow> ('u stringPS \<Rightarrow> 'u result) \<Rightarrow> 'u stringPS
     \<Rightarrow> 'u iface list \<Rightarrow> 'u loopEnd" where
  "pEndBy_loop 0 inner sep ps results = LoopOutOfFuel"
| "pEndBy_loop (Suc k) inner sep ps results =
     (case inner ps of
        Err err \<Rightarrow> Done ps results
      | Ok ps1 \<Rightarrow>
          (case sep ps1 of
             Err err \<Rightarrow> Done ps (results @ [stringPS_Value ps1])
           | Ok ps2 \<Rightarrow> pEndBy_loop k inner sep ps2 (results @ [stringPS_Value ps1])
           | Panic x \<Rightarrow> LoopPanic x
           | OutOfFuel \<Rightarrow> LoopOutOfFuel)
      | Panic x \<Rightarrow> LoopPanic x
      | OutOfFuel \<Rightarrow> LoopOutOfFuel)"

definition pEndBy_Parse ::
  "nat \<Rightarrow> ('u stringPS \<Rightarrow> 'u result) \<Rightarrow> ('u stringPS \<Rightarrow> 'u result) \<Rightarrow> int \<Rightarrow> 'u stringPS
     \<Rightarrow> 'u result" where
  "pEndBy_Parse k inner sep mn ps =
     (case pEndBy_loop k inner sep ps [] of
        LoopPanic x \<Rightarrow> Panic x
      | LoopOutOfFuel \<Rightarrow> OutOfFuel
      | Done lst results \<Rightarrow>
          if mn > int (length results) then Panic NilDereference
          else Ok (stringPS_SetValue lst (VList results)))"

text \<open>
  \<^verbatim>\<open>pManyTill.Parse\<close>: when the inner parser returns an error it returns a nil
  stream, which is assigned to \<^verbatim>\<open>ps\<close> before \<^verbatim>\<open>ps.Loc()\<close> is called.
\<close>

fun pManyTill_loop ::
  "nat \<Rightarrow> ('u stringPS \<Rightarrow> 'u result) \<Rightarrow> ('u stringPS \<Rightarrow> 'u result) \<Rightarrow> 'u stringPS
     \<Rightarrow> 'u iface list \<Rightarrow> 'u result" where
  "pManyTill_loop 0 inner terminator ps results = OutOfFuel"
| "pManyTill_loop (Suc k) inner terminator ps results =
     (case terminator ps of
        Ok tps \<Rightarrow> Ok (stringPS_SetValue tps (VList results))
      | Err terr \<Rightarrow>
          (case inner ps of
             Err err \<Rightarrow> Panic NilDereference
           | Ok ps1 \<Rightarrow>
               pManyTill_loop k inner terminator ps1 (results @ [stringPS_Value ps1])
           | Panic x \<Rightarrow> Panic x
           | OutOfFuel \<Rightarrow> OutOfFuel)
      | Panic x \<Rightarrow> Panic x
      | OutOfFuel \<Rightarrow> OutOfFuel)"

definition pManyTill_Parse ::
  "nat \<Rightarrow> ('u stringPS \<Rightarrow> 'u result) \<Rightarrow> ('u stringPS \<Rightarrow> 'u result) \<Rightarrow> 'u stringPS
     \<Rightarrow> 'u result" where
  "pManyTill_Parse k inner terminator ps = pManyTill_loop k inner terminator ps []"

text \<open>
  \<^verbatim>\<open>pWithAction.Parse\<close>: the text of an action's error is the format of
  \<^verbatim>\<open>mkErrorMessage\<close>, with no argument.
\<close>

definition pWithAction_Parse ::
  "golib \<Rightarrow> ('u stringPS \<Rightarrow> 'u result) \<Rightarrow> 'u Action \<Rightarrow> 'u stringPS
     \<Rightarrow> 'u result" where
  "pWithAction_Parse lib inner action ps =
     (case inner ps of
        Err err \<Rightarrow> Err err
      | Ok ps' \<Rightarrow>
          (case action (stringPS_Value ps') of
             ActOk res \<Rightarrow> Ok (stringPS_SetValue ps' res)
           | ActErr e \<Rightarrow> Err (mkErrorMessage (stringPS_Loc ps') (Sprintf0 lib e))
           | ActPanic x \<Rightarrow> Panic x)
      | Panic x \<Rightarrow> Panic x
      | OutOfFuel \<Rightarrow> OutOfFuel)"

definition pSymbol_Parse ::
  "('u Parser \<Rightarrow> 'u stringPS \<Rightarrow> 'u result) \<Rightarrow> string \<Rightarrow> 'u stringPS \<Rightarrow> 'u symbolTable
     \<Rightarrow> 'u result" where
  "pSymbol_Parse rec name ps g =
     (case g name of
        Some inner \<Rightarrow> rec inner ps
      | None \<Rightarrow> Panic (PanicMsg (''no symbol named '' @ [CHR 0x27] @ name @ [CHR 0x27])))"

subsection \<open>The method Parse\<close>

text \<open>
  \<^verbatim>\<open>Parse\<close> dispatches on the dynamic type of the parser. Parsers call each other
  without bound (a symbol may refer to itself, a repetition may never fail), so the model
  has fuel: every call of \<^verbatim>\<open>Parse\<close> uses one unit, and a loop that has no bound in the
  source runs at most as many rounds as there is fuel left. \<open>OutOfFuel\<close> says that the
  call had not returned by then. \<open>lib\<close> holds the library functions that are parameters.
\<close>

fun Parse ::
  "golib \<Rightarrow> nat \<Rightarrow> 'u Parser \<Rightarrow> 'u stringPS \<Rightarrow> 'u symbolTable \<Rightarrow> 'u result" where
  "Parse lib 0 p ps g = OutOfFuel"
| "Parse lib (Suc n) (pLiteral target) ps g = pLiteral_Parse target ps"
| "Parse lib (Suc n) (pLiteralIC target upcased) ps g = pLiteralIC_Parse lib target upcased ps"
| "Parse lib (Suc n) (pAlt parsers) ps g =
     pAlt_Parse (\<lambda>q s. Parse lib n q s g) parsers ps"
| "Parse lib (Suc n) (pSeq parsers) ps g =
     pSeq_Parse (\<lambda>q s. Parse lib n q s g) parsers ps"
| "Parse lib (Suc n) (pSeqAt parsers index) ps g =
     pSeqAt_Parse (\<lambda>q s. Parse lib n q s g) parsers index ps"
| "Parse lib (Suc n) (pOptional inner) ps g =
     pOptional_Parse (\<lambda>s. Parse lib n inner s g) ps"
| "Parse lib (Suc n) pAnyChar ps g = pAnyChar_Parse ps"
| "Parse lib (Suc n) (pOneOf options) ps g = pOneOf_Parse options ps"
| "Parse lib (Suc n) (pNoneOf blacklist) ps g = pNoneOf_Parse blacklist ps"
| "Parse lib (Suc n) (pRange lo hi) ps g = pRange_Parse lo hi ps"
| "Parse lib (Suc n) (pMany inner mn capture) ps g =
     pMany_Parse n (\<lambda>s. Parse lib n inner s g) mn capture ps"
| "Parse lib (Suc n) (pSepBy inner sep mn) ps g =
     pSepBy_Parse n (\<lambda>s. Parse lib n inner s g) (\<lambda>s. Parse lib n sep s g) mn ps"
| "Parse lib (Suc n) (pEndBy inner sep mn) ps g =
     pEndBy_Parse n (\<lambda>s. Parse lib n inner s g) (\<lambda>s. Parse lib n sep s g) mn ps"
| "Parse lib (Suc n) (pManyTill inner terminator) ps g =
     pManyTill_Parse n (\<lambda>s. Parse lib n inner s g) (\<lambda>s. Parse lib n terminator s g) ps"
| "Parse lib (Suc n) (pWithAction inner action) ps g =
     pWithAction_Parse lib (\<lambda>s. Parse lib n inner s g) action ps"
| "Parse lib (Suc n) (pSymbol name) ps g =
     pSymbol_Parse (\<lambda>q s. Parse lib n q s g) name ps g"

subsection \<open>Constructors of the library\<close>

definition Literal :: "string \<Rightarrow> 'u Parser" where
  "Literal s = pLiteral s"

definition LiteralIC :: "golib \<Rightarrow> string \<Rightarrow> 'u Parser" where
  "LiteralIC lib s = pLiteralIC s (toUpperString lib s)"

definition Alt :: "'u Parser list \<Rightarrow> 'u Parser" where
  "Alt parsers = pAlt parsers"

definition Seq :: "'u Parser list \<Rightarrow> 'u Parser" where
  "Seq parsers = pSeq parsers"

definition SeqAt :: "int \<Rightarrow> 'u Parser list \<Rightarrow> 'u Parser" where
  "SeqAt index parsers = pSeqAt parsers index"

definition Optional :: "'u Parser \<Rightarrow> 'u Parser" where
  "Optional p = pOptional p"

definition AnyChar :: "'u Parser" where
  "AnyChar = pAnyChar"

definition OneOf :: "string \<Rightarrow> 'u Parser" where
  "OneOf options = pOneOf options"

definition NoneOf :: "string \<Rightarrow> 'u Parser" where
  "NoneOf blacklist = pNoneOf blacklist"

definition Range_p :: "char \<Rightarrow> char \<Rightarrow> 'u Parser" where
  "Range_p lo hi = pRange lo hi"

definition ManyMin :: "'u Parser \<Rightarrow> int \<Rightarrow> 'u Parser" where
  "ManyMin p mn = pMany p mn True"

definition Many :: "'u Parser \<Rightarrow> 'u Parser" where
  "Many p = ManyMin p 0"

definition Many1 :: "'u Parser \<Rightarrow> 'u Parser" where
  "Many1 p = ManyMin p 1"

definition ManyDrop :: "'u Parser \<Rightarrow> 'u Parser" where
  "ManyDrop p = pMany p 0 False"

definition SepBy :: "'u Parser \<Rightarrow> 'u Parser \<Rightarrow> 'u Parser" where
  "SepBy p sep = pSepBy p sep 0"

definition SepBy1 :: "'u Parser \<Rightarrow> 'u Parser \<Rightarrow> 'u Parser" where
  "SepBy1 p sep = pSepBy p sep 1"

definition EndBy :: "'u Parser \<Rightarrow> 'u Parser \<Rightarrow> 'u Parser" where
  "EndBy p sep = pEndBy p sep 0"

definition EndBy1 :: "'u Parser \<Rightarrow> 'u Parser \<Rightarrow> 'u Parser" where
  "EndBy1 p sep = pEndBy p sep 1"

definition ManyTill :: "'u Parser \<Rightarrow> 'u Parser \<Rightarrow> 'u Parser" where
  "ManyTill inner terminator = pManyTill inner terminator"

definition parserWithAction :: "'u Parser \<Rightarrow> 'u Action \<Rightarrow> 'u Parser" where
  "parserWithAction p act = pWithAction p act"

definition Symbol :: "string \<Rightarrow> 'u Parser" where
  "Symbol name = pSymbol name"

text \<open>
  The action of \<^verbatim>\<open>Stringify\<close>: the type assertion \<^verbatim>\<open>raw.([]interface{})\<close> and the
  assertions \<^verbatim>\<open>c.(byte)\<close> on the elements panic on a value of another type.
\<close>

fun stringifyBytes :: "'u iface list \<Rightarrow> string option" where
  "stringifyBytes [] = Some []"
| "stringifyBytes (VByte c # rest) = map_option ((#) c) (stringifyBytes rest)"
| "stringifyBytes (v # rest) = None"

definition stringifyAction :: "'u Action" where
  "stringifyAction raw =
     (case raw of
        VList res \<Rightarrow>
          (case stringifyBytes res of
             Some out \<Rightarrow> ActOk (VStr out)
           | None \<Rightarrow> ActPanic TypeAssertion)
      | _ \<Rightarrow> ActPanic TypeAssertion)"

definition Stringify :: "'u Parser \<Rightarrow> 'u Parser" where
  "Stringify p = parserWithAction p stringifyAction"

section \<open>Grammars and the driver\<close>

record 'u Grammar =
  symbols :: "'u symbolTable"
  startSymbol :: string

definition NewGrammar :: "'u Grammar" where
  "NewGrammar = \<lparr>symbols = Map.empty, startSymbol = ''START''\<rparr>"

text \<open>
  The methods of \<^verbatim>\<open>*Grammar\<close> change the grammar in place; the model returns the new
  grammar.
\<close>

definition AddSymbol :: "'u Grammar \<Rightarrow> string \<Rightarrow> 'u Parser \<Rightarrow> 'u Grammar" where
  "AddSymbol g name p = g\<lparr>symbols := (symbols g)(name \<mapsto> p)\<rparr>"

text \<open>\<^verbatim>\<open>AddSymbols\<close>: the symbols of the argument replace those of the same name.\<close>

definition AddSymbols :: "'u Grammar \<Rightarrow> 'u symbolTable \<Rightarrow> 'u Grammar" where
  "AddSymbols g syms = g\<lparr>symbols := symbols g ++ syms\<rparr>"

definition WithAction :: "'u Grammar \<Rightarrow> string \<Rightarrow> 'u Parser \<Rightarrow> 'u Action \<Rightarrow> 'u Grammar" where
  "WithAction g name p action = g\<lparr>symbols := (symbols g)(name \<mapsto> parserWithAction p action)\<rparr>"

text \<open>
  \<^verbatim>\<open>AddAction\<close> returns the grammar as the call leaves it and how the call ends:
  \<open>None\<close> for a normal return, \<open>Some x\<close> for the panic \<open>x\<close>. In the source the
  \<^verbatim>\<open>panic\<close> statement follows the \<^verbatim>\<open>if\<close> statement, which has no \<^verbatim>\<open>return\<close>.
\<close>

definition AddAction ::
  "'u Grammar \<Rightarrow> string \<Rightarrow> 'u Action \<Rightarrow> 'u Grammar \<times> panic option" where
  "AddAction g name action =
     (let g' = (case symbols g name of
                  Some p \<Rightarrow> g\<lparr>symbols := (symbols g)(name \<mapsto> parserWithAction p action)\<rparr>
                | None \<Rightarrow> g)
      in (g', Some (PanicMsg (''no such symbol: '' @ [CHR 0x27] @ name @ [CHR 0x27]))))"

text \<open>
  What the driver does: it returns a value and an error of which one is nil, or panics,
  or has not returned when the fuel is used up.
\<close>

datatype 'u parsed =
    Returned "'u iface" "parseError option"
  | Panicked panic
  | Unfinished

text \<open>The stream that \<^verbatim>\<open>ParseStringWith\<close> builds from the file name and the input.\<close>

definition newStringPS :: "string \<Rightarrow> string \<Rightarrow> 'u stringPS" where
  "newStringPS fname input =
     \<lparr>str = input, pos = 0, filename = fname, line = 1, col = 0, val = VNil\<rparr>"

definition ParseStringWith ::
  "golib \<Rightarrow> nat \<Rightarrow> 'u Grammar \<Rightarrow> string \<Rightarrow> string \<Rightarrow> string \<Rightarrow> 'u parsed" where
  "ParseStringWith lib n g fname input startSym =
     (let ps = newStringPS fname input in
      case symbols g startSym of
        Some p \<Rightarrow>
          (case Parse lib n p ps (symbols g) of
             Err err \<Rightarrow> Returned VNil (Some err)
           | Ok ps' \<Rightarrow>
               (case stringPS_Head ps' of
                  (c, eof) \<Rightarrow>
                    if \<not> eof then
                      Returned VNil
                        (Some (mkErrorMessage (stringPS_Loc ps')
                                 ''incomplete parse, expected EOF but input remains''))
                    else Returned (stringPS_Value ps') None)
           | Panic x \<Rightarrow> Panicked x
           | OutOfFuel \<Rightarrow> Unfinished)
      | None \<Rightarrow>
          Panicked (PanicMsg (''start symbol '' @ [CHR 0x27] @ startSym @ [CHR 0x27]
                                @ '' does not exist'')))"

definition ParseString ::
  "golib \<Rightarrow> nat \<Rightarrow> 'u Grammar \<Rightarrow> string \<Rightarrow> string \<Rightarrow> 'u parsed" where
  "ParseString lib n g fname input = ParseStringWith lib n g fname input ''START''"

section \<open>Notions used to state the properties\<close>

text \<open>
  A value for the library parameter in the examples below, none of which reaches a
  function of the parameter.
\<close>

definition someLib :: golib where
  "someLib = \<lparr>sprintfVerbs = (\<lambda>s. s), toUpperString = (\<lambda>s. s), toUpperFirst = (\<lambda>c. c)\<rparr>"

text \<open>
  The fragments of an expectation list as the rendering rules write them:
  \<open>e0, e1, \<dots>\<close>, every fragment after the first one preceded by a comma and a space.
\<close>

definition commaList :: "string list \<Rightarrow> string" where
  "commaList es = (case es of [] \<Rightarrow> [] | e0 # rest \<Rightarrow> e0 @ concat (map (\<lambda>x. '', '' @ x) rest))"

text \<open>
  \<open>successes inner ps ss\<close>: applied again and again from \<open>ps\<close>, the call \<open>inner\<close>
  succeeds \<open>length ss\<close> times in a row and returns the streams \<open>ss\<close> in turn.
\<close>

fun successes :: "('u stringPS \<Rightarrow> 'u result) \<Rightarrow> 'u stringPS \<Rightarrow> 'u stringPS list \<Rightarrow> bool" where
  "successes inner ps [] = True"
| "successes inner ps (s # ss) = (inner ps = Ok s \<and> successes inner s ss)"

text \<open>\<open>tails k s\<close>: the stream reached from \<open>s\<close> by \<open>k\<close> calls of \<^verbatim>\<open>Tail\<close>.\<close>

fun tails :: "nat \<Rightarrow> 'u stringPS \<Rightarrow> 'u stringPS option" where
  "tails 0 s = Some s"
| "tails (Suc k) s = (case tails k s of None \<Rightarrow> None | Some t \<Rightarrow> stringPS_Tail t)"

text \<open>A call that never returns a stream behind the one it was given.\<close>

definition forward :: "('u stringPS \<Rightarrow> 'u result) \<Rightarrow> bool" where
  "forward f = (\<forall>s s'. f s = Ok s' \<longrightarrow> pos s \<le> pos s')"

section \<open>Rendering of parse errors\<close>

lemma Join_Cons: "Join (x # xs) sep = x @ concat (map (\<lambda>y. sep @ y) xs)"
  by (induction xs arbitrary: x) simp_all

lemma Join_commaList: "Join es '', '' = commaList es"
  unfolding commaList_def by (cases es) (simp_all only: Join_Cons Join.simps list.case)

text \<open>
  Claim C5. The string of a parse error is \<open><file> line L col C: <message>\<close> when
  nothing is expected; with one expected fragment it is
  \<open><file> line L col C: expected <e0>\<close>, and with two or more it is
  \<open><file> line L col C: expected one of <e0>, <e1>, \<dots>\<close>, in both cases with
  \<open><message>, \<close> before \<open>expected\<close> when the message is not empty.
\<close>

theorem error_rendering:
  "parseError_Error e =
     (let p = Filename (loc e) @ '' line '' @ showInt (Line (loc e))
                @ '' col '' @ showInt (Col (loc e)) @ '': '';
          m = (if message e = [] then [] else message e @ '', '')
      in case expected e of
           [] \<Rightarrow> p @ message e
         | [e0] \<Rightarrow> p @ m @ ''expected '' @ e0
         | e0 # e1 # es \<Rightarrow> p @ m @ ''expected one of '' @ commaList (expected e))"
proof (cases "expected e")
  case Nil
  then show ?thesis by (simp add: parseError_Error_def Let_def)
next
  case (Cons e0 rest)
  show ?thesis
  proof (cases rest)
    case Nil
    with Cons show ?thesis by (simp add: parseError_Error_def Let_def)
  next
    case (Cons e1 es)
    with \<open>expected e = e0 # rest\<close> show ?thesis
      by (simp add: parseError_Error_def Let_def Join_commaList del: Join.simps)
  qed
qed

text \<open>The error of \<^verbatim>\<open>Many1(Range('a', 'z'))\<close> on no letter, as the tests of the library print it.\<close>

theorem error_rendering_witness:
  "parseError_Error \<lparr>expected = [''range(a..z)''], message = ''minimum 1'',
       loc = \<lparr>Filename = ''test'', Line = 1, Col = 0\<rparr>\<rparr>
     = ''test line 1 col 0: minimum 1, expected range(a..z)''"
  using error_rendering [of "\<lparr>expected = [''range(a..z)''], message = ''minimum 1'',
       loc = \<lparr>Filename = ''test'', Line = 1, Col = 0\<rparr>\<rparr>"]
  by (simp add: showInt_def showNat.simps commaList_def)

section \<open>Alt\<close>

lemma pAlt_loop_all_fail:
  "list_all2 (\<lambda>q e. rec q ps = Err e) parsers errs \<Longrightarrow>
   pAlt_loop rec parsers ps acc =
     Err (mkErrorExpectations (stringPS_Loc ps) (concat (map expected (acc @ errs))))"
proof (induction parsers errs arbitrary: acc rule: list_all2_induct)
  case Nil
  then show ?case by simp
next
  case (Cons q qs e es)
  then show ?case by simp
qed

text \<open>
  Claim C1. When every child of \<^verbatim>\<open>Alt\<close> fails on the stream (the children
  \<open>parsers\<close> return the errors \<open>errs\<close>, in order), \<^verbatim>\<open>Alt\<close> returns an error at the
  location of the stream it was given, whose expected list is the concatenation of the
  children's expected lists in the order of the children and whose message is empty.
  Without children \<^verbatim>\<open>Alt\<close> fails with an empty expected list.
\<close>

theorem alt_all_fail:
  assumes "list_all2 (\<lambda>q e. Parse lib n q ps g = Err e) parsers errs"
  shows "Parse lib (Suc n) (Alt parsers) ps g =
           Err \<lparr>expected = concat (map expected errs), message = [], loc = stringPS_Loc ps\<rparr>
         \<and> Parse lib (Suc n) (Alt []) ps g =
           Err \<lparr>expected = [], message = [], loc = stringPS_Loc ps\<rparr>"
  using assms pAlt_loop_all_fail [where rec = "\<lambda>q s. Parse lib n q s g" and acc = "[]"]
  by (simp add: Alt_def pAlt_Parse_def mkErrorExpectations_def)

text \<open>The definitions that the examples with \<^verbatim>\<open>Literal\<close> unfold.\<close>

lemmas eval_defs =
  Literal_def pLiteral_Parse_def newStringPS_def
  stringPS_Head_def stringPS_Tail_def stringPS_SetValue_def stringPS_Value_def
  stringPS_Loc_def mkErrorExpect_def mkErrorExpectations_def mkErrorMessage_def

text \<open>\<^verbatim>\<open>Alt(Literal("abc"), Literal("aaa"), Literal("def"))\<close> on the input \<^verbatim>\<open>ABC\<close>.\<close>

theorem alt_all_fail_witness:
  "list_all2 (\<lambda>q e. Parse someLib (Suc 0) q (newStringPS ''test'' ''ABC'' :: unit stringPS) Map.empty = Err e)
     [Literal ''abc'', Literal ''aaa'', Literal ''def'']
     [\<lparr>expected = [''literal '' @ [CHR 0x27] @ ''abc'' @ [CHR 0x27]], message = [],
        loc = \<lparr>Filename = ''test'', Line = 1, Col = 0\<rparr>\<rparr>,
      \<lparr>expected = [''literal '' @ [CHR 0x27] @ ''aaa'' @ [CHR 0x27]], message = [],
        loc = \<lparr>Filename = ''test'', Line = 1, Col = 0\<rparr>\<rparr>,
      \<lparr>expected = [''literal '' @ [CHR 0x27] @ ''def'' @ [CHR 0x27]], message = [],
        loc = \<lparr>Filename = ''test'', Line = 1, Col = 0\<rparr>\<rparr>]
   \<and> Parse someLib (Suc (Suc 0)) (Alt [Literal ''abc'', Literal ''aaa'', Literal ''def''])
       (newStringPS ''test'' ''ABC'' :: unit stringPS) Map.empty =
     Err \<lparr>expected = [''literal '' @ [CHR 0x27] @ ''abc'' @ [CHR 0x27],
                      ''literal '' @ [CHR 0x27] @ ''aaa'' @ [CHR 0x27],
                      ''literal '' @ [CHR 0x27] @ ''def'' @ [CHR 0x27]],
          message = [], loc = \<lparr>Filename = ''test'', Line = 1, Col = 0\<rparr>\<rparr>"
proof -
  have h: "list_all2 (\<lambda>q e. Parse someLib (Suc 0) q (newStringPS ''test'' ''ABC'' :: unit stringPS) Map.empty = Err e)
     [Literal ''abc'', Literal ''aaa'', Literal ''def'']
     [\<lparr>expected = [''literal '' @ [CHR 0x27] @ ''abc'' @ [CHR 0x27]], message = [],
        loc = \<lparr>Filename = ''test'', Line = 1, Col = 0\<rparr>\<rparr>,
      \<lparr>expected = [''literal '' @ [CHR 0x27] @ ''aaa'' @ [CHR 0x27]], message = [],
        loc = \<lparr>Filename = ''test'', Line = 1, Col = 0\<rparr>\<rparr>,
      \<lparr>expected = [''literal '' @ [CHR 0x27] @ ''def'' @ [CHR 0x27]], message = [],
        loc = \<lparr>Filename = ''test'', Line = 1, Col = 0\<rparr>\<rparr>]"
    by (simp add: eval_defs)
  from alt_all_fail [OF h] h show ?thesis by (simp add: stringPS_Loc_def newStringPS_def)
qed

section \<open>The driver\<close>

text \<open>
  Claim C4. For a grammar in which the start symbol is defined: when the start parser
  fails, \<^verbatim>\<open>ParseStringWith\<close> returns the error of that parser as it is; when the
  start parser succeeds and the stream it returns is not at the end of the input,
  \<^verbatim>\<open>ParseStringWith\<close> returns an error with the message
  \<^verbatim>\<open>incomplete parse, expected EOF but input remains\<close> at the location of that
  stream; otherwise it returns the value of the stream and no error.
\<close>

theorem driver_outcomes:
  assumes "symbols g startSym = Some p"
  shows "(Parse lib n p (newStringPS fname input) (symbols g) = Err err \<longrightarrow>
            ParseStringWith lib n g fname input startSym = Returned VNil (Some err))
       \<and> (Parse lib n p (newStringPS fname input) (symbols g) = Ok ps'
            \<and> \<not> snd (stringPS_Head ps') \<longrightarrow>
            ParseStringWith lib n g fname input startSym =
              Returned VNil
                (Some \<lparr>expected = [],
                       message = ''incomplete parse, expected EOF but input remains'',
                       loc = stringPS_Loc ps'\<rparr>))
       \<and> (Parse lib n p (newStringPS fname input) (symbols g) = Ok ps'
            \<and> snd (stringPS_Head ps') \<longrightarrow>
            ParseStringWith lib n g fname input startSym =
              Returned (stringPS_Value ps') None)"
  using assms
  by (auto simp: ParseStringWith_def Let_def mkErrorMessage_def split: prod.splits)

text \<open>The grammar with the start parser \<^verbatim>\<open>Literal("a")\<close> on the inputs \<^verbatim>\<open>b\<close>, \<^verbatim>\<open>ab\<close> and \<^verbatim>\<open>a\<close>.\<close>

theorem driver_outcomes_witness:
  "symbols (AddSymbol NewGrammar ''START'' (Literal ''a'') :: unit Grammar) ''START''
     = Some (Literal ''a'')
   \<and> ParseStringWith someLib 2 (AddSymbol NewGrammar ''START'' (Literal ''a'') :: unit Grammar)
       ''test'' ''b'' ''START''
     = Returned VNil (Some \<lparr>expected = [''literal '' @ [CHR 0x27] @ ''a'' @ [CHR 0x27]],
          message = [], loc = \<lparr>Filename = ''test'', Line = 1, Col = 0\<rparr>\<rparr>)
   \<and> ParseStringWith someLib 2 (AddSymbol NewGrammar ''START'' (Literal ''a'') :: unit Grammar)
       ''test'' ''ab'' ''START''
     = Returned VNil (Some \<lparr>expected = [],
          message = ''incomplete parse, expected EOF but input remains'',
          loc = \<lparr>Filename = ''test'', Line = 1, Col = 0\<rparr>\<rparr>)
   \<and> ParseStringWith someLib 2 (AddSymbol NewGrammar ''START'' (Literal ''a'') :: unit Grammar)
       ''test'' ''a'' ''START''
     = Returned (VStr ''a'') None"
proof -
  let ?g = "AddSymbol NewGrammar ''START'' (Literal ''a'') :: unit Grammar"
  let ?e = "\<lparr>expected = [''literal '' @ [CHR 0x27] @ ''a'' @ [CHR 0x27]],
          message = [], loc = \<lparr>Filename = ''test'', Line = 1, Col = 0\<rparr>\<rparr>"
  let ?s1 = "\<lparr>str = ''ab'', pos = 1, filename = ''test'', line = 1, col = 0,
               val = VStr ''a'' :: unit iface\<rparr>"
  let ?s2 = "\<lparr>str = ''a'', pos = 1, filename = ''test'', line = 1, col = 0,
               val = VStr ''a'' :: unit iface\<rparr>"
  have start: "symbols ?g ''START'' = Some (Literal ''a'')"
    by (simp add: AddSymbol_def NewGrammar_def)
  have fails: "Parse someLib 2 (Literal ''a'') (newStringPS ''test'' ''b'') (symbols ?g) = Err ?e"
    by (simp add: eval_defs numeral_2_eq_2)
  have rest: "Parse someLib 2 (Literal ''a'') (newStringPS ''test'' ''ab'') (symbols ?g) = Ok ?s1
      \<and> \<not> snd (stringPS_Head ?s1)"
    by (simp add: eval_defs numeral_2_eq_2)
  have all: "Parse someLib 2 (Literal ''a'') (newStringPS ''test'' ''a'') (symbols ?g) = Ok ?s2
      \<and> snd (stringPS_Head ?s2)"
    by (simp add: eval_defs numeral_2_eq_2)
  from driver_outcomes [OF start, of someLib 2 "''test''" "''b''" "?e"] fails
       driver_outcomes [OF start, of someLib 2 "''test''" "''ab''" _ "?s1"] rest
       driver_outcomes [OF start, of someLib 2 "''test''" "''a''" _ "?s2"] all
       start
  show ?thesis by (simp add: stringPS_Loc_def stringPS_Value_def)
qed

section \<open>ManyMin\<close>

lemma pMany_loop_run:
  "successes inner ps ss \<Longrightarrow> inner (last (ps # ss)) = Err err \<Longrightarrow> length ss < k \<Longrightarrow>
   pMany_loop k inner mn True ps results found =
     (if found + int (length ss) < mn then
        Err \<lparr>expected = expected err, message = ''minimum '' @ showInt mn,
             loc = stringPS_Loc (last (ps # ss))\<rparr>
      else Ok (stringPS_SetValue (last (ps # ss)) (VList (results @ map stringPS_Value ss))))"
proof (induction ss arbitrary: ps k results found)
  case Nil
  then obtain k' where "k = Suc k'" by (cases k) auto
  with Nil show ?case by simp
next
  case (Cons s ss)
  then obtain k' where k: "k = Suc k'" by (cases k) auto
  from Cons.prems have step: "inner ps = Ok s" and rest: "successes inner s ss"
    and fin: "inner (last (s # ss)) = Err err" and len: "length ss < k'"
    using k by auto
  have "pMany_loop k inner mn True ps results found =
          pMany_loop k' inner mn True s (results @ [stringPS_Value s]) (found + 1)"
    using k step by simp
  also have "\<dots> =
     (if (found + 1) + int (length ss) < mn then
        Err \<lparr>expected = expected err, message = ''minimum '' @ showInt mn,
             loc = stringPS_Loc (last (s # ss))\<rparr>
      else Ok (stringPS_SetValue (last (s # ss))
                 (VList ((results @ [stringPS_Value s]) @ map stringPS_Value ss))))"
    by (rule Cons.IH [OF rest fin len])
  finally show ?case by simp
qed

text \<open>
  Claim C6. When the parser \<open>p\<close> succeeds \<open>length ss\<close> times in a row from the
  stream \<open>ps\<close> and then fails with the error \<open>err\<close>, \<^verbatim>\<open>ManyMin(p, mn)\<close> succeeds
  exactly when that number of successes is at least \<open>mn\<close>, with the list of the values
  of \<open>p\<close>; below \<open>mn\<close> it fails with the message \<^verbatim>\<open>minimum <mn>\<close> and the expected
  list of \<open>err\<close>, the failure that ended the repetition.
\<close>

theorem manyMin_count:
  assumes "successes (\<lambda>s. Parse lib n p s g) ps ss"
    and "Parse lib n p (last (ps # ss)) g = Err err"
    and "length ss < n"
  shows "Parse lib (Suc n) (ManyMin p mn) ps g =
     (if mn \<le> int (length ss) then
        Ok (stringPS_SetValue (last (ps # ss)) (VList (map stringPS_Value ss)))
      else Err \<lparr>expected = expected err, message = ''minimum '' @ showInt mn,
                loc = stringPS_Loc (last (ps # ss))\<rparr>)"
  using pMany_loop_run [where inner = "\<lambda>s. Parse lib n p s g" and results = "[]"
      and found = 0 and mn = mn, OF assms]
  by (simp add: ManyMin_def pMany_Parse_def not_less)

text \<open>\<^verbatim>\<open>ManyMin(Range('a', 'z'), 2)\<close> and \<^verbatim>\<open>ManyMin(Range('a', 'z'), 3)\<close> on the input \<^verbatim>\<open>ab!\<close>.\<close>

theorem manyMin_count_witness:
  "Parse someLib 4 (ManyMin (Range_p CHR ''a'' CHR ''z'') 2) (newStringPS ''t'' ''ab!'') Map.empty
     = Ok \<lparr>str = ''ab!'', pos = 2, filename = ''t'', line = 1, col = 0,
            val = VList [VByte CHR ''a'', VByte CHR ''b'' :: unit iface]\<rparr>
   \<and> Parse someLib 4 (ManyMin (Range_p CHR ''a'' CHR ''z'') 3) (newStringPS ''t'' ''ab!'') Map.empty
     = (Err \<lparr>expected = [''range(a..z)''], message = ''minimum 3'',
            loc = \<lparr>Filename = ''t'', Line = 1, Col = 0\<rparr>\<rparr> :: unit result)"
proof -
  let ?p = "Range_p CHR ''a'' CHR ''z'' :: unit Parser"
  let ?s0 = "newStringPS ''t'' ''ab!'' :: unit stringPS"
  let ?s1 = "\<lparr>str = ''ab!'', pos = 1, filename = ''t'', line = 1, col = 0,
               val = VByte CHR ''a'' :: unit iface\<rparr>"
  let ?s2 = "\<lparr>str = ''ab!'', pos = 2, filename = ''t'', line = 1, col = 0,
               val = VByte CHR ''b'' :: unit iface\<rparr>"
  let ?e = "\<lparr>expected = [''range(a..z)''], message = [],
              loc = \<lparr>Filename = ''t'', Line = 1, Col = 0\<rparr>\<rparr>"
  have run: "successes (\<lambda>s. Parse someLib 3 ?p s Map.empty) ?s0 [?s1, ?s2]"
    by code_simp
  have stop: "Parse someLib 3 ?p (last (?s0 # [?s1, ?s2])) Map.empty = Err ?e"
    by code_simp
  have len: "length [?s1, ?s2] < (3::nat)" by simp
  have three: "Suc 3 = 4" by simp
  from manyMin_count [OF run stop len, of 2] manyMin_count [OF run stop len, of 3]
  show ?thesis
    by (simp add: three stringPS_SetValue_def stringPS_Value_def stringPS_Loc_def
          showInt_def showNat.simps)
qed

section \<open>No parser moves the cursor backwards\<close>

lemma pos_SetValue [simp]: "pos (stringPS_SetValue s v) = pos s"
  by (simp add: stringPS_SetValue_def)

lemma pos_Tail: "stringPS_Tail s = Some t \<Longrightarrow> pos t = pos s + 1"
  by (auto simp: stringPS_Tail_def Let_def split: if_splits)

lemma pLiteral_loop_pos:
  "pLiteral_loop target rest ps = Ok ps' \<Longrightarrow> pos ps \<le> pos ps'"
proof (induction rest arbitrary: ps)
  case Nil
  then show ?case by auto
next
  case (Cons c rest)
  then show ?case
    by (fastforce split: prod.splits if_splits option.splits dest: pos_Tail)
qed

lemma pLiteralIC_loop_pos:
  "pLiteralIC_loop lib target upcased i rest ps = Ok ps' \<Longrightarrow> pos ps \<le> pos ps'"
proof (induction rest arbitrary: ps i)
  case Nil
  then show ?case by auto
next
  case (Cons c rest)
  then show ?case
    by (fastforce split: prod.splits if_splits option.splits dest: pos_Tail)
qed

lemma pAnyChar_pos: "pAnyChar_Parse ps = Ok ps' \<Longrightarrow> pos ps \<le> pos ps'"
  by (auto simp: pAnyChar_Parse_def split: prod.splits if_splits option.splits dest: pos_Tail)

lemma pOneOf_pos: "pOneOf_Parse options ps = Ok ps' \<Longrightarrow> pos ps \<le> pos ps'"
  by (auto simp: pOneOf_Parse_def split: prod.splits if_splits option.splits dest: pos_Tail)

lemma pNoneOf_pos: "pNoneOf_Parse blacklist ps = Ok ps' \<Longrightarrow> pos ps \<le> pos ps'"
  by (auto simp: pNoneOf_Parse_def split: prod.splits if_splits option.splits dest: pos_Tail)

lemma pRange_pos: "pRange_Parse lo hi ps = Ok ps' \<Longrightarrow> pos ps \<le> pos ps'"
  by (auto simp: pRange_Parse_def split: prod.splits if_splits option.splits dest: pos_Tail)

lemma forwardD: "forward f \<Longrightarrow> f s = Ok s' \<Longrightarrow> pos s \<le> pos s'"
  by (auto simp: forward_def)

lemma pAlt_loop_pos:
  "(\<And>q. forward (rec q)) \<Longrightarrow> pAlt_loop rec parsers ps errs = Ok ps' \<Longrightarrow> pos ps \<le> pos ps'"
proof (induction parsers arbitrary: errs)
  case Nil
  then show ?case by simp
next
  case (Cons q qs)
  then show ?case by (auto split: result.splits dest: forwardD)
qed

lemma pSeq_loop_pos:
  "(\<And>q. forward (rec q)) \<Longrightarrow> pSeq_loop rec parsers ps out = Ok ps' \<Longrightarrow> pos ps \<le> pos ps'"
proof (induction parsers arbitrary: ps out)
  case Nil
  then show ?case by auto
next
  case (Cons q qs)
  show ?case
  proof (cases "rec q ps")
    case (Ok ps1)
    with Cons.prems have "pos ps \<le> pos ps1" by (auto dest: forwardD)
    moreover from Ok Cons.prems have "pos ps1 \<le> pos ps'"
      by (auto intro: Cons.IH)
    ultimately show ?thesis by simp
  qed (use Cons.prems in auto)
qed

lemma pSeqAt_loop_pos:
  "(\<And>q. forward (rec q)) \<Longrightarrow> pSeqAt_loop rec index parsers i ps v = Ok ps'
     \<Longrightarrow> pos ps \<le> pos ps'"
proof (induction parsers arbitrary: ps i v)
  case Nil
  then show ?case by auto
next
  case (Cons q qs)
  show ?case
  proof (cases "rec q ps")
    case (Ok ps1)
    with Cons.prems have "pos ps \<le> pos ps1" by (auto dest: forwardD)
    moreover from Ok Cons.prems have "pos ps1 \<le> pos ps'"
      by (auto intro: Cons.IH)
    ultimately show ?thesis by simp
  qed (use Cons.prems in auto)
qed

lemma pOptional_pos:
  "forward inner \<Longrightarrow> pOptional_Parse inner ps = Ok ps' \<Longrightarrow> pos ps \<le> pos ps'"
  by (auto simp: pOptional_Parse_def split: result.splits dest: forwardD)

lemma pMany_loop_pos:
  "forward inner \<Longrightarrow> pMany_loop k inner mn capture ps results found = Ok ps'
     \<Longrightarrow> pos ps \<le> pos ps'"
proof (induction k arbitrary: ps results found)
  case 0
  then show ?case by simp
next
  case (Suc k)
  show ?case
  proof (cases "inner ps")
    case (Ok ps2)
    with Suc.prems have "pos ps \<le> pos ps2" by (auto dest: forwardD)
    moreover from Ok Suc.prems have "pos ps2 \<le> pos ps'"
      by (auto intro: Suc.IH)
    ultimately show ?thesis by simp
  next
    case (Err e)
    with Suc.prems show ?thesis by (auto split: if_splits)
  qed (use Suc.prems in auto)
qed

lemma pSepBy_loop_pos:
  "forward inner \<Longrightarrow> forward sep \<Longrightarrow> pSepBy_loop k inner sep ps results = Done lst res
     \<Longrightarrow> pos ps \<le> pos lst"
proof (induction k arbitrary: ps results)
  case 0
  then show ?case by simp
next
  case (Suc k)
  show ?case
  proof (cases "inner ps")
    case (Ok ps1)
    with Suc.prems have le1: "pos ps \<le> pos ps1" by (auto dest: forwardD)
    show ?thesis
    proof (cases "sep ps1")
      case (Ok ps2)
      with Suc.prems have "pos ps1 \<le> pos ps2" by (auto dest: forwardD)
      moreover from Ok \<open>inner ps = Ok ps1\<close> Suc.prems have "pos ps2 \<le> pos lst"
        by (auto intro: Suc.IH)
      ultimately show ?thesis using le1 by simp
    next
      case (Err e)
      with \<open>inner ps = Ok ps1\<close> Suc.prems le1 show ?thesis by auto
    qed (use \<open>inner ps = Ok ps1\<close> Suc.prems in auto)
  next
    case (Err e)
    with Suc.prems show ?thesis by auto
  qed (use Suc.prems in auto)
qed

lemma pEndBy_loop_pos:
  "forward inner \<Longrightarrow> forward sep \<Longrightarrow> pEndBy_loop k inner sep ps results = Done lst res
     \<Longrightarrow> pos ps \<le> pos lst"
proof (induction k arbitrary: ps results)
  case 0
  then show ?case by simp
next
  case (Suc k)
  show ?case
  proof (cases "inner ps")
    case (Ok ps1)
    with Suc.prems have le1: "pos ps \<le> pos ps1" by (auto dest: forwardD)
    show ?thesis
    proof (cases "sep ps1")
      case (Ok ps2)
      with Suc.prems have "pos ps1 \<le> pos ps2" by (auto dest: forwardD)
      moreover from Ok \<open>inner ps = Ok ps1\<close> Suc.prems have "pos ps2 \<le> pos lst"
        by (auto intro: Suc.IH)
      ultimately show ?thesis using le1 by simp
    next
      case (Err e)
      with \<open>inner ps = Ok ps1\<close> Suc.prems show ?thesis by auto
    qed (use \<open>inner ps = Ok ps1\<close> Suc.prems in auto)
  next
    case (Err e)
    with Suc.prems show ?thesis by auto
  qed (use Suc.prems in auto)
qed

lemma pSepBy_pos:
  "forward inner \<Longrightarrow> forward sep \<Longrightarrow> pSepBy_Parse k inner sep mn ps = Ok ps'
     \<Longrightarrow> pos ps \<le> pos ps'"
  by (auto simp: pSepBy_Parse_def split: loopEnd.splits if_splits dest: pSepBy_loop_pos)

lemma pEndBy_pos:
  "forward inner \<Longrightarrow> forward sep \<Longrightarrow> pEndBy_Parse k inner sep mn ps = Ok ps'
     \<Longrightarrow> pos ps \<le> pos ps'"
  by (auto simp: pEndBy_Parse_def split: loopEnd.splits if_splits dest: pEndBy_loop_pos)

lemma pManyTill_loop_pos:
  "forward inner \<Longrightarrow> forward terminator
     \<Longrightarrow> pManyTill_loop k inner terminator ps results = Ok ps' \<Longrightarrow> pos ps \<le> pos ps'"
proof (induction k arbitrary: ps results)
  case 0
  then show ?case by simp
next
  case (Suc k)
  show ?case
  proof (cases "terminator ps")
    case (Ok tps)
    with Suc.prems show ?thesis by (auto dest: forwardD)
  next
    case (Err terr)
    show ?thesis
    proof (cases "inner ps")
      case (Ok ps1)
      with Suc.prems have "pos ps \<le> pos ps1" by (auto dest: forwardD)
      moreover from Ok Err Suc.prems have "pos ps1 \<le> pos ps'"
        by (auto intro: Suc.IH)
      ultimately show ?thesis by simp
    qed (use Err Suc.prems in auto)
  qed (use Suc.prems in auto)
qed

lemma pWithAction_pos:
  "forward inner \<Longrightarrow> pWithAction_Parse lib inner action ps = Ok ps' \<Longrightarrow> pos ps \<le> pos ps'"
  by (auto simp: pWithAction_Parse_def split: result.splits actionResult.splits dest: forwardD)

lemma pSymbol_pos:
  "(\<And>q. forward (rec q)) \<Longrightarrow> pSymbol_Parse rec name ps g = Ok ps' \<Longrightarrow> pos ps \<le> pos ps'"
  by (auto simp: pSymbol_Parse_def split: option.splits dest: forwardD)

lemma Parse_forward: "forward (\<lambda>s. Parse lib n p s g)"
proof (induction n arbitrary: p)
  case 0
  show ?case by (simp add: forward_def)
next
  case (Suc n)
  have rec: "\<And>q. forward ((\<lambda>q s. Parse lib n q s g) q)" using Suc.IH by simp
  show ?case
  proof (cases p)
    case (pLiteral t)
    then show ?thesis by (auto simp: forward_def pLiteral_Parse_def dest: pLiteral_loop_pos)
  next
    case (pLiteralIC t u)
    then show ?thesis by (auto simp: forward_def pLiteralIC_Parse_def dest: pLiteralIC_loop_pos)
  next
    case (pAlt qs)
    then show ?thesis
      using pAlt_loop_pos [where rec = "\<lambda>q s. Parse lib n q s g", OF rec]
      by (auto simp: forward_def pAlt_Parse_def)
  next
    case (pSeq qs)
    then show ?thesis
      using pSeq_loop_pos [where rec = "\<lambda>q s. Parse lib n q s g", OF rec]
      by (auto simp: forward_def pSeq_Parse_def)
  next
    case (pSeqAt qs i)
    then show ?thesis
      using pSeqAt_loop_pos [where rec = "\<lambda>q s. Parse lib n q s g", OF rec]
      by (auto simp: forward_def pSeqAt_Parse_def)
  next
    case (pOptional q)
    then show ?thesis
      using pOptional_pos [OF Suc.IH [of q]] by (auto simp: forward_def)
  next
    case pAnyChar
    then show ?thesis by (auto simp: forward_def dest: pAnyChar_pos)
  next
    case (pOneOf x)
    then show ?thesis by (auto simp: forward_def dest: pOneOf_pos)
  next
    case (pNoneOf x)
    then show ?thesis by (auto simp: forward_def dest: pNoneOf_pos)
  next
    case (pRange lo hi)
    then show ?thesis by (auto simp: forward_def dest: pRange_pos)
  next
    case (pMany q mn c)
    then show ?thesis
      using pMany_loop_pos [OF Suc.IH [of q]] by (auto simp: forward_def pMany_Parse_def)
  next
    case (pSepBy q sep mn)
    then show ?thesis
      using pSepBy_pos [OF Suc.IH [of q] Suc.IH [of sep]] by (auto simp: forward_def)
  next
    case (pEndBy q sep mn)
    then show ?thesis
      using pEndBy_pos [OF Suc.IH [of q] Suc.IH [of sep]] by (auto simp: forward_def)
  next
    case (pManyTill q t)
    then show ?thesis
      using pManyTill_loop_pos [OF Suc.IH [of q] Suc.IH [of t]]
      by (auto simp: forward_def pManyTill_Parse_def)
  next
    case (pWithAction q a)
    then show ?thesis
      using pWithAction_pos [OF Suc.IH [of q]] by (auto simp: forward_def)
  next
    case (pSymbol name)
    then show ?thesis
      using pSymbol_pos [where rec = "\<lambda>q s. Parse lib n q s g", OF rec]
      by (auto simp: forward_def)
  qed
qed

text \<open>
  Claim C10. For every parser, stream and symbol table, when \<^verbatim>\<open>Parse\<close> succeeds the
  position of the stream it returns is greater than or equal to the position of the
  stream it was given.
\<close>

theorem non_regression:
  "Parse lib n p ps g = Ok ps' \<Longrightarrow> pos ps \<le> pos ps'"
  using Parse_forward [of lib n p g] by (auto simp: forward_def)

text \<open>\<^verbatim>\<open>SepBy(Literal("a"), Literal(","))\<close> on the input \<^verbatim>\<open>a,b\<close>.\<close>

theorem non_regression_witness:
  "Parse someLib 3 (SepBy (Literal ''a'') (Literal '','')) (newStringPS ''t'' ''a,b'') Map.empty
     = Ok \<lparr>str = ''a,b'', pos = 2, filename = ''t'', line = 1, col = 0,
            val = VList [VStr ''a'' :: unit iface]\<rparr>
   \<and> pos (newStringPS ''t'' ''a,b'' :: unit stringPS)
       \<le> pos \<lparr>str = ''a,b'', pos = 2, filename = ''t'', line = 1, col = 0,
            val = VList [VStr ''a'' :: unit iface]\<rparr>"
proof -
  have h: "Parse someLib 3 (SepBy (Literal ''a'') (Literal '','')) (newStringPS ''t'' ''a,b'') Map.empty
     = Ok \<lparr>str = ''a,b'', pos = 2, filename = ''t'', line = 1, col = 0,
            val = VList [VStr ''a'' :: unit iface]\<rparr>"
    by code_simp
  from non_regression [OF h] h show ?thesis by simp
qed

section \<open>Where the source differs from its description\<close>

subsection \<open>Lines and columns\<close>

text \<open>
  What \<^verbatim>\<open>Tail\<close> computes: after \<open>k\<close> calls from the stream of the driver the line
  is 1 plus the number of newlines among the first \<open>k\<close> bytes, and the column is 0.
\<close>

lemma tails_newStringPS:
  "k \<le> length input \<Longrightarrow>
   tails k (newStringPS fname input :: 'u stringPS) =
     Some \<lparr>str = input, pos = k, filename = fname,
            line = 1 + int (count_list (take k input) (CHR 0x0A)), col = 0, val = VNil\<rparr>"
proof (induction k)
  case 0
  show ?case by (simp add: newStringPS_def)
next
  case (Suc k)
  then have "k < length input" by simp
  then have "take (Suc k) input = take k input @ [input ! k]"
    by (simp add: take_Suc_conv_app_nth)
  with Suc show ?case
    by (simp add: stringPS_Tail_def Let_def)
qed

text \<open>
  Claim C2 says that the stream reached by \<open>k\<close> calls of \<^verbatim>\<open>Tail\<close> from the stream of
  the driver has the column \<open>k - lastNewlineIndex - 1\<close>: the column grows by one for
  each byte that is not a newline. \<^verbatim>\<open>Tail\<close> copies the column and sets it to 0 after
  a newline; it never adds one. On the input \<^verbatim>\<open>ab\<close> one call of \<^verbatim>\<open>Tail\<close> reaches
  offset 1, where the claim gives column 1, and the stream and its location have
  column 0.
\<close>

theorem tail_column_stays:
  "tails 1 (newStringPS ''test'' ''ab'' :: unit stringPS)
     = Some \<lparr>str = ''ab'', pos = 1, filename = ''test'', line = 1, col = 0, val = VNil\<rparr>
   \<and> stringPS_Loc \<lparr>str = ''ab'', pos = 1, filename = ''test'', line = 1, col = 0,
                     val = VNil :: unit iface\<rparr>
     = \<lparr>Filename = ''test'', Line = 1, Col = 0\<rparr>"
  by (simp add: newStringPS_def stringPS_Tail_def stringPS_Loc_def)

subsection \<open>SepBy and a trailing separator\<close>

text \<open>
  In general: an element, a separator and then an element that fails make \<^verbatim>\<open>SepBy\<close>
  return the stream after the separator.
\<close>

lemma pSepBy_after_separator:
  "inner ps = Ok ps1 \<Longrightarrow> sep ps1 = Ok ps2 \<Longrightarrow> inner ps2 = Err err \<Longrightarrow>
   pSepBy_Parse (Suc (Suc k)) inner sep 0 ps =
     Ok (stringPS_SetValue ps2 (VList [stringPS_Value ps1]))"
  by (simp add: pSepBy_Parse_def)

text \<open>
  Claim C3 says that when the separator succeeds and the next element fails, the stream
  that \<^verbatim>\<open>SepBy\<close> returns is positioned before that separator. The loop of
  \<^verbatim>\<open>pSepBy.Parse\<close> sets \<^verbatim>\<open>last\<close> to the stream after the separator at the start of
  the next round, before the element is tried. On the input \<^verbatim>\<open>a,\<close> the element
  \<^verbatim>\<open>Literal("a")\<close> ends at position 1 and \<^verbatim>\<open>SepBy(Literal("a"), Literal(","))\<close>
  returns the stream at position 2, after the separator; the value is the list of the
  one element.
\<close>

theorem sepBy_trailing_separator:
  "Parse someLib 3 (SepBy (Literal ''a'') (Literal '','')) (newStringPS ''test'' ''a,'') Map.empty
     = Ok \<lparr>str = ''a,'', pos = 2, filename = ''test'', line = 1, col = 0,
            val = VList [VStr ''a'' :: unit iface]\<rparr>
   \<and> Parse someLib 2 (Literal ''a'') (newStringPS ''test'' ''a,'') Map.empty
     = Ok \<lparr>str = ''a,'', pos = 1, filename = ''test'', line = 1, col = 0,
            val = (VStr ''a'' :: unit iface)\<rparr>"
  by code_simp

subsection \<open>Panics\<close>

text \<open>
  In general: with a positive minimum \<^verbatim>\<open>pSepBy.Parse\<close> panics when the first element
  fails, and \<^verbatim>\<open>pManyTill.Parse\<close> panics when the terminator and the inner parser fail
  on the same stream.
\<close>

lemma pSepBy_first_fails:
  "inner ps = Err err \<Longrightarrow> 0 < mn \<Longrightarrow> pSepBy_Parse (Suc k) inner sep mn ps = Panic NilDereference"
  by (simp add: pSepBy_Parse_def)

lemma pManyTill_both_fail:
  "terminator ps = Err terr \<Longrightarrow> inner ps = Err err \<Longrightarrow>
   pManyTill_Parse (Suc k) inner terminator ps = Panic NilDereference"
  by (simp add: pManyTill_Parse_def)

text \<open>
  Claim C7 says that no parser panics, except \<^verbatim>\<open>Symbol\<close> on an undefined name and
  the driver on an undefined start symbol, and that \<^verbatim>\<open>SepBy1\<close>, \<^verbatim>\<open>ManyTill\<close> and
  \<^verbatim>\<open>Stringify\<close> return an error. \<^verbatim>\<open>SepBy1\<close> on an input without a first element
  and \<^verbatim>\<open>ManyTill\<close> on an input where the terminator and the inner parser fail call
  \<^verbatim>\<open>Loc\<close> on a nil stream while they build their error; \<^verbatim>\<open>Stringify\<close> of a parser
  whose value is not a list of bytes fails its type assertion.
\<close>

theorem sepBy1_panics:
  "Parse someLib 2 (SepBy1 (Literal ''a'') (Literal '','')) (newStringPS ''test'' '''') Map.empty
     = (Panic NilDereference :: unit result)
   \<and> Parse someLib 2 (ManyTill AnyChar (Literal ''x'')) (newStringPS ''test'' '''') Map.empty
     = (Panic NilDereference :: unit result)
   \<and> Parse someLib 2 (Stringify (Literal ''a'')) (newStringPS ''test'' ''a'') Map.empty
     = (Panic TypeAssertion :: unit result)"
  by code_simp

subsection \<open>AddAction\<close>

text \<open>In general: no call of \<^verbatim>\<open>AddAction\<close> returns normally.\<close>

lemma AddAction_always_panics: "snd (AddAction g name action) \<noteq> None"
  by (simp add: AddAction_def Let_def)

text \<open>
  Claim C8 says that \<^verbatim>\<open>AddAction\<close> returns normally when the name is in the symbol
  table. In the source the \<^verbatim>\<open>panic\<close> statement is reached on every path: for the
  grammar that defines \<^verbatim>\<open>START\<close>, \<^verbatim>\<open>AddAction("START", action)\<close> wraps the parser
  in the table and then panics.
\<close>

theorem addAction_panics:
  "snd (AddAction (AddSymbol NewGrammar ''START'' AnyChar :: unit Grammar) ''START'' ActOk)
     = Some (PanicMsg (''no such symbol: '' @ [CHR 0x27] @ ''START'' @ [CHR 0x27]))
   \<and> symbols (fst (AddAction (AddSymbol NewGrammar ''START'' AnyChar :: unit Grammar)
                       ''START'' ActOk)) ''START''
     = Some (pWithAction pAnyChar ActOk)"
  by (simp add: AddAction_def Let_def AddSymbol_def NewGrammar_def parserWithAction_def
        AnyChar_def)

subsection \<open>EndBy and an element without terminator\<close>

text \<open>
  In general: an element whose terminator fails makes \<^verbatim>\<open>EndBy\<close> return the stream
  before that element together with the value of the element.
\<close>

lemma pEndBy_keeps_value:
  "inner ps = Ok ps1 \<Longrightarrow> sep ps1 = Err err \<Longrightarrow>
   pEndBy_Parse (Suc k) inner sep 0 ps =
     Ok (stringPS_SetValue ps (VList [stringPS_Value ps1]))"
  by (simp add: pEndBy_Parse_def)

text \<open>
  Claim C9 says that the value of \<^verbatim>\<open>EndBy\<close> lists the values of the elements that a
  terminator follows, and that an element without terminator adds no value. The loop of
  \<^verbatim>\<open>pEndBy.Parse\<close> appends the value of an element before it tries the terminator.
  On the input \<^verbatim>\<open>a;a\<close>, \<^verbatim>\<open>EndBy(Literal("a"), Literal(";"))\<close> returns the stream at
  position 2, after the one terminated element, with the two values of both elements.
\<close>

theorem endBy_unterminated_element:
  "Parse someLib 3 (EndBy (Literal ''a'') (Literal '';'')) (newStringPS ''test'' ''a;a'') Map.empty
     = Ok \<lparr>str = ''a;a'', pos = 2, filename = ''test'', line = 1, col = 0,
            val = VList [VStr ''a'', VStr ''a'' :: unit iface]\<rparr>"
  by code_simp

end
